theory Spec2Isabelle
  imports Main "HOL-Library.Word"
begin

section \<open>The chat client: frontend/src/App.jsx\<close>

subsection \<open>JavaScript strings\<close>

text \<open>
  A JavaScript string is a sequence of UTF-16 code units. The literals of the source are
  ASCII, so \<open>js\<close> writes them from an Isabelle string.
\<close>

type_synonym code_unit = "16 word"
type_synonym js_string = "code_unit list"

definition js :: "string \<Rightarrow> js_string" where
  "js s = map (\<lambda>c. of_nat (of_char c)) s"

text \<open>
  \<^verbatim>\<open>String.prototype.trim\<close> strips WhiteSpace and LineTerminator code points from both
  ends: TAB, LF, VT, FF, CR, SPACE, NBSP, U+1680, U+2000..U+200A, U+2028, U+2029, U+202F,
  U+205F, U+3000 and U+FEFF. All of them are single code units.
\<close>

definition isWhiteSpace :: "code_unit \<Rightarrow> bool" where
  "isWhiteSpace c \<longleftrightarrow>
     c \<in> {0x9, 0xA, 0xB, 0xC, 0xD, 0x20, 0xA0, 0x1680, 0x2028, 0x2029, 0x202F, 0x205F,
          0x3000, 0xFEFF}
     \<or> (0x2000 \<le> c \<and> c \<le> 0x200A)"

definition trim :: "js_string \<Rightarrow> js_string" where
  "trim s = rev (dropWhile isWhiteSpace (rev (dropWhile isWhiteSpace s)))"

text \<open>A string is falsy exactly when it is empty, so \<^verbatim>\<open>!s\<close> is \<open>falsy s\<close>.\<close>

definition falsy :: "js_string \<Rightarrow> bool" where
  "falsy s \<longleftrightarrow> s = []"

subsection \<open>Data of the chat state\<close>

text \<open>
  Identifiers come from \<^verbatim>\<open>Date.now()\<close> (a number) or from the server (a number or a
  string); the client only stores and compares them.
\<close>

datatype ident = NumId int | StrId js_string

datatype role = User | Assistant

text \<open>
  A field that an object may lack is an \<open>option\<close>: \<open>None\<close> is what reading it gives when
  it is not there (\<^verbatim>\<open>undefined\<close>). Reading a missing field does not throw; reading a
  field of \<^verbatim>\<open>undefined\<close> does.
\<close>

text \<open>One entry of \<^verbatim>\<open>response.data.responses\<close>, as the message view reads it.\<close>

record model_reply =
  reply_error :: "js_string option"
  reply_content :: "js_string option"
  latency_ms :: "int option"

record message =
  msg_id :: "ident option"
  msg_role :: role
  content :: "js_string option"
  model_used :: "js_string option"
  all_responses :: "(js_string \<times> model_reply) list option"
  timestamp :: "js_string option"

record conversation =
  conv_id :: "ident option"
  title :: "js_string option"
  message_count :: "int option"
  updated_at :: "js_string option"

text \<open>The body of \<^verbatim>\<open>POST /chat\<close> and the fields of its answer that the client reads.\<close>

record chat_request =
  req_conversation_id :: "ident option"
  req_message :: js_string
  selected_models :: "js_string list"
  use_ensemble :: bool

record best =
  best_content :: "js_string option"
  best_model :: "js_string option"

record chat_response =
  message_id :: "ident option"
  best_response :: "best option"
  responses :: "(js_string \<times> model_reply) list option"
  resp_timestamp :: "js_string option"
  conversation_id :: "ident option"

text \<open>The chat state of the \<^verbatim>\<open>App\<close> component (its \<^verbatim>\<open>useState\<close> cells).\<close>

record app_state =
  conversations :: "conversation list"
  currentConversation :: "conversation option"
  messages :: "message list"
  inputMessage :: js_string
  selectedModels :: "js_string list"
  useEnsemble :: bool
  isLoading :: bool

text \<open>\<^verbatim>\<open>useState\<close> initial values of the chat state.\<close>

definition initial_state :: app_state where
  "initial_state =
     \<lparr>conversations = [], currentConversation = None, messages = [], inputMessage = [],
      selectedModels = [js ''gemini'', js ''deepseek'', js ''claude''], useEnsemble = True,
      isLoading = False\<rparr>"

text \<open>
  What a handler reads from outside the component: the clock and the stored token
  (\<^verbatim>\<open>localStorage.getItem\<close> gives \<^verbatim>\<open>null\<close> when there is none).
\<close>

record env =
  date_now :: int
  date_iso :: js_string
  authToken :: "js_string option"

definition sample_env :: env where
  "sample_env =
     \<lparr>date_now = 1700000000000, date_iso = js ''2023-11-14T22:13:20.000Z'',
      authToken = Some (js ''token'')\<rparr>"

text \<open>What a handler does to the outside: the calls it makes.\<close>

datatype effect =
    PreventDefault
  | PostChat chat_request "js_string option"
  | FetchConversations "js_string option"
  | ConsoleError
  | Alert js_string

fun is_post :: "effect \<Rightarrow> bool" where
  "is_post (PostChat _ _) = True"
| "is_post _ = False"

subsection \<open>sendMessage\<close>

text \<open>
  \<^verbatim>\<open>sendMessage\<close> is an async function. Up to its \<^verbatim>\<open>await axios.post(...)\<close> it runs at
  once: \<open>sendMessage\<close> is that part, and gives the new state, the calls made, and (when
  a request was issued) what the rest of the function has captured. The guard is its
  second statement:
  \<^verbatim>\<open>if (!inputMessage.trim() || isLoading) return;\<close>
\<close>

record pending =
  p_token :: "js_string option"
  p_currentConversation :: "conversation option"

definition sendMessage :: "app_state \<Rightarrow> env \<Rightarrow> app_state \<times> effect list \<times> pending option" where
  "sendMessage st e =
     (if falsy (trim (inputMessage st)) \<or> isLoading st then (st, [PreventDefault], None)
      else
        let token = authToken e;
            userMessage = inputMessage st;
            tempUserMsg =
              \<lparr>msg_id = Some (NumId (date_now e)), msg_role = User,
               content = Some userMessage, model_used = None, all_responses = None,
               timestamp = Some (date_iso e)\<rparr>;
            request =
              \<lparr>req_conversation_id =
                 (case currentConversation st of None \<Rightarrow> None | Some c \<Rightarrow> conv_id c),
               req_message = userMessage, selected_models = selectedModels st,
               use_ensemble = useEnsemble st\<rparr>
        in (st\<lparr>inputMessage := [], isLoading := True, messages := messages st @ [tempUserMsg]\<rparr>,
            [PreventDefault, PostChat request token],
            Some \<lparr>p_token = token, p_currentConversation = currentConversation st\<rparr>))"

text \<open>
  The rest runs when the request settles, on the state of that moment. \<open>Inl ()\<close> is a
  rejected promise (no answer, or a status outside 2xx) or a \<^verbatim>\<open>null\<close> body, whose first
  field read throws: control goes to the \<^verbatim>\<open>catch\<close>.
  \<open>Inr data\<close> is an answer with body \<open>data\<close>. Building \<^verbatim>\<open>aiMessage\<close> reads
  \<^verbatim>\<open>response.data.best_response.content\<close> and \<^verbatim>\<open>.model\<close>: when the body has no
  \<^verbatim>\<open>best_response\<close> that read throws, before any setter has run, and control goes to the
  \<^verbatim>\<open>catch\<close> as well. Every other field is copied as it is, there or not.
  \<^verbatim>\<open>setMessages(prev => [...prev, aiMessage])\<close> appends to the current list; the test
  \<^verbatim>\<open>!currentConversation\<close> reads the captured value. \<^verbatim>\<open>finally\<close> ends loading on
  every path.
\<close>

definition send_failed :: "app_state \<Rightarrow> app_state \<times> effect list" where
  "send_failed st =
     (st\<lparr>isLoading := False\<rparr>,
      [ConsoleError, Alert (js ''Failed to send message. Please try again.'')])"

definition sendMessage_settled :: "pending \<Rightarrow> unit + chat_response \<Rightarrow> app_state \<Rightarrow> app_state \<times> effect list" where
  "sendMessage_settled k outcome st =
     (case outcome of
        Inl _ \<Rightarrow> send_failed st
      | Inr data \<Rightarrow>
          (case best_response data of
             None \<Rightarrow> send_failed st
           | Some b \<Rightarrow>
               let aiMessage =
                     \<lparr>msg_id = message_id data, msg_role = Assistant,
                      content = best_content b, model_used = best_model b,
                      all_responses = responses data, timestamp = resp_timestamp data\<rparr>;
                   st1 = st\<lparr>messages := messages st @ [aiMessage]\<rparr>
               in if p_currentConversation k = None
                  then (st1\<lparr>currentConversation :=
                               Some \<lparr>conv_id = conversation_id data, title = None,
                                     message_count = None, updated_at = None\<rparr>,
                             isLoading := False\<rparr>,
                        [FetchConversations (p_token k)])
                  else (st1\<lparr>isLoading := False\<rparr>, [])))"

text \<open>
  The send button: \<^verbatim>\<open>disabled={isLoading || !inputMessage.trim()}\<close>; the input field:
  \<^verbatim>\<open>disabled={isLoading}\<close>.
\<close>

definition send_disabled :: "app_state \<Rightarrow> bool" where
  "send_disabled st \<longleftrightarrow> isLoading st \<or> falsy (trim (inputMessage st))"

definition input_disabled :: "app_state \<Rightarrow> bool" where
  "input_disabled st \<longleftrightarrow> isLoading st"

subsection \<open>toggleModel\<close>

text \<open>
  \<^verbatim>\<open>setSelectedModels(prev => prev.includes(modelId)
       ? prev.filter(id => id !== modelId) : [...prev, modelId])\<close>
\<close>

definition toggle :: "js_string \<Rightarrow> js_string list \<Rightarrow> js_string list" where
  "toggle modelId prev =
     (if modelId \<in> set prev then filter (\<lambda>i. i \<noteq> modelId) prev else prev @ [modelId])"

definition toggleModel :: "js_string \<Rightarrow> app_state \<Rightarrow> app_state" where
  "toggleModel modelId st = st\<lparr>selectedModels := toggle modelId (selectedModels st)\<rparr>"

section \<open>Properties of the chat client\<close>

subsection \<open>Trimming\<close>

lemma dropWhile_all: "(\<forall>x \<in> set (dropWhile P xs). P x) \<longleftrightarrow> (\<forall>x \<in> set xs. P x)"
  by (induction xs) auto

lemma trim_empty_iff: "trim s = [] \<longleftrightarrow> (\<forall>c \<in> set s. isWhiteSpace c)"
  by (simp add: trim_def dropWhile_eq_Nil_conv dropWhile_all)

lemma isWhiteSpace_space: "isWhiteSpace 0x20"
  by (simp add: isWhiteSpace_def)

lemma not_isWhiteSpace_letter: "\<not> isWhiteSpace 0x68"
  by (simp add: isWhiteSpace_def)

subsection \<open>toggleModel flips membership\<close>

lemma toggle_present:
  assumes "distinct s" and "m \<in> set s"
  shows "\<exists>xs ys. s = xs @ m # ys \<and> toggle m s = xs @ ys"
proof -
  from \<open>m \<in> set s\<close> obtain xs ys where s: "s = xs @ m # ys"
    by (auto simp: in_set_conv_decomp)
  with \<open>distinct s\<close> have "m \<notin> set xs" and "m \<notin> set ys"
    by auto
  then have "filter (\<lambda>i. i \<noteq> m) xs = xs" and "filter (\<lambda>i. i \<noteq> m) ys = ys"
    by (auto simp: filter_id_conv)
  then have "filter (\<lambda>i. i \<noteq> m) s = xs @ ys"
    by (simp add: s)
  with s \<open>m \<in> set s\<close> show ?thesis
    by (auto simp: toggle_def)
qed

lemma toggle_absent: "m \<notin> set s \<Longrightarrow> toggle m s = s @ [m]"
  by (simp add: toggle_def)

lemma set_toggle: "set (toggle m s) = (if m \<in> set s then set s - {m} else insert m (set s))"
  by (auto simp: toggle_def)

lemma distinct_toggle: "distinct s \<Longrightarrow> distinct (toggle m s)"
  by (simp add: toggle_def)

text \<open>
  Claim C9. For a model identifier \<open>m\<close> and a duplicate-free list of selected models,
  \<open>toggleModel m\<close> flips the membership of \<open>m\<close>: when \<open>m\<close> is selected, the new list
  is the old one with \<open>m\<close> cut out and the other entries in their order; otherwise it is the old
  list with \<open>m\<close> appended. No other cell of the state changes, the list stays
  duplicate-free, and toggling twice gives a list with the members it started with.
\<close>

theorem toggleModel_flips_membership:
  assumes "distinct (selectedModels st)"
  shows "(m \<in> set (selectedModels st) \<longrightarrow>
            (\<exists>xs ys. selectedModels st = xs @ m # ys
                    \<and> selectedModels (toggleModel m st) = xs @ ys)
            \<and> m \<notin> set (selectedModels (toggleModel m st)))
       \<and> (m \<notin> set (selectedModels st) \<longrightarrow>
            selectedModels (toggleModel m st) = selectedModels st @ [m])
       \<and> distinct (selectedModels (toggleModel m st))
       \<and> set (selectedModels (toggleModel m (toggleModel m st))) = set (selectedModels st)
       \<and> toggleModel m st = st\<lparr>selectedModels := selectedModels (toggleModel m st)\<rparr>"
proof -
  let ?s = "selectedModels st"
  have sel: "selectedModels (toggleModel x t) = toggle x (selectedModels t)" for x t
    by (simp add: toggleModel_def)
  have "m \<in> set ?s \<Longrightarrow> \<exists>xs ys. ?s = xs @ m # ys \<and> toggle m ?s = xs @ ys"
    using assms by (rule toggle_present)
  moreover have "m \<in> set ?s \<Longrightarrow> m \<notin> set (toggle m ?s)"
    by (simp add: set_toggle)
  moreover have "m \<notin> set ?s \<Longrightarrow> toggle m ?s = ?s @ [m]"
    by (rule toggle_absent)
  moreover have "distinct (toggle m ?s)"
    using assms by (rule distinct_toggle)
  moreover have "set (toggle m (toggle m ?s)) = set ?s"
    by (auto simp: set_toggle)
  moreover have "toggleModel m st = st\<lparr>selectedModels := toggle m ?s\<rparr>"
    by (simp add: toggleModel_def)
  ultimately show ?thesis
    by (simp add: sel)
qed

theorem toggleModel_flips_membership_witness:
  "distinct (selectedModels initial_state)
   \<and> selectedModels (toggleModel (js ''deepseek'') initial_state) = [js ''gemini'', js ''claude'']
   \<and> selectedModels (toggleModel (js ''gpt'') initial_state)
       = [js ''gemini'', js ''deepseek'', js ''claude'', js ''gpt'']
   \<and> set (selectedModels (toggleModel (js ''deepseek'') (toggleModel (js ''deepseek'') initial_state)))
       = set (selectedModels initial_state)"
proof -
  have d: "distinct (selectedModels initial_state)"
    by (simp add: initial_state_def js_def)
  have "set (selectedModels (toggleModel (js ''deepseek'') (toggleModel (js ''deepseek'') initial_state)))
          = set (selectedModels initial_state)"
    using toggleModel_flips_membership [OF d, of "js ''deepseek''"] by simp
  moreover have "selectedModels (toggleModel (js ''deepseek'') initial_state) = [js ''gemini'', js ''claude'']"
    by (simp add: toggleModel_def toggle_def initial_state_def js_def)
  moreover have "selectedModels (toggleModel (js ''gpt'') initial_state)
       = [js ''gemini'', js ''deepseek'', js ''claude'', js ''gpt'']"
    by (simp add: toggleModel_def toggle_def initial_state_def js_def)
  ultimately show ?thesis
    using d by simp
qed

subsection \<open>The guard of sendMessage\<close>

text \<open>When the guard does not fire, the request is issued and the state is loading.\<close>

lemma sendMessage_issues_request:
  assumes "\<not> falsy (trim (inputMessage st))" and "\<not> isLoading st"
  shows "\<exists>st' r k. sendMessage st e = (st', [PreventDefault, PostChat r (authToken e)], Some k)
           \<and> isLoading st' \<and> inputMessage st' = [] \<and> req_message r = inputMessage st
           \<and> length (messages st') = Suc (length (messages st))"
  using assms by (simp add: sendMessage_def Let_def)

lemma sendMessage_in_flight:
  assumes "sendMessage st e = (st', effs, Some k)"
  shows "isLoading st' \<and> send_disabled st' \<and> input_disabled st'"
  using assms
  by (auto simp: sendMessage_def Let_def send_disabled_def input_disabled_def split: if_splits)

text \<open>
  Once the component has rendered the state that a submit left behind, so that the handler
  reads \<open>isLoading\<close> of that state, another submit does nothing. (A handler of the
  render before still holds the old cells; this is about the handler of the new render.)
\<close>

lemma sendMessage_twice:
  assumes "sendMessage st e = (st', effs, Some k)"
  shows "sendMessage st' e' = (st', [PreventDefault], None)"
proof -
  from assms have "isLoading st'"
    by (auto simp: sendMessage_def Let_def split: if_splits)
  then show ?thesis
    by (simp add: sendMessage_def)
qed

text \<open>
  When the answer has a \<^verbatim>\<open>best_response\<close>, the assistant message appended to the list
  carries its content and model and the answer's identifier, timestamp and per-model
  replies, each as the answer has it; loading ends.
\<close>

lemma sendMessage_settled_ok:
  assumes "best_response data = Some b"
  shows "messages (fst (sendMessage_settled k (Inr data) st))
           = messages st @
             [\<lparr>msg_id = message_id data, msg_role = Assistant, content = best_content b,
               model_used = best_model b, all_responses = responses data,
               timestamp = resp_timestamp data\<rparr>]"
    and "\<not> isLoading (fst (sendMessage_settled k (Inr data) st))"
  using assms by (simp_all add: sendMessage_settled_def Let_def)

text \<open>
  A rejected request, and an answer without \<^verbatim>\<open>best_response\<close>, leave the messages as
  they are, alert the user and end loading.
\<close>

lemma sendMessage_settled_failed:
  assumes "outcome = Inl u \<or> (\<exists>data. outcome = Inr data \<and> best_response data = None)"
  shows "sendMessage_settled k outcome st
     = (st\<lparr>isLoading := False\<rparr>,
        [ConsoleError, Alert (js ''Failed to send message. Please try again.'')])"
  using assms by (auto simp: sendMessage_settled_def send_failed_def)

text \<open>
  Claim C10. When the trimmed input is empty, or a request is in flight (\<open>isLoading\<close>),
  \<open>sendMessage\<close> returns at its guard: it issues no \<^verbatim>\<open>POST /chat\<close> (its only call is
  \<^verbatim>\<open>e.preventDefault()\<close>), nothing is left pending, and the state, so
  \<open>messages\<close>, \<open>inputMessage\<close>, \<open>conversations\<close> and \<open>currentConversation\<close>, is unchanged;
  the send button is disabled under the same condition.
\<close>

theorem sendMessage_guard:
  assumes "trim (inputMessage st) = [] \<or> isLoading st"
  shows "sendMessage st e = (st, [PreventDefault], None)
       \<and> filter is_post (fst (snd (sendMessage st e))) = []
       \<and> messages (fst (sendMessage st e)) = messages st
       \<and> inputMessage (fst (sendMessage st e)) = inputMessage st
       \<and> conversations (fst (sendMessage st e)) = conversations st
       \<and> currentConversation (fst (sendMessage st e)) = currentConversation st
       \<and> send_disabled st"
  using assms by (auto simp: sendMessage_def send_disabled_def falsy_def)

theorem sendMessage_guard_witness:
  "trim (inputMessage (initial_state\<lparr>inputMessage := js ''  ''\<rparr>)) = []
   \<and> sendMessage (initial_state\<lparr>inputMessage := js ''  ''\<rparr>) sample_env
       = (initial_state\<lparr>inputMessage := js ''  ''\<rparr>, [PreventDefault], None)
   \<and> send_disabled (initial_state\<lparr>inputMessage := js ''  ''\<rparr>)
   \<and> isLoading (initial_state\<lparr>inputMessage := js ''hi'', isLoading := True\<rparr>)
   \<and> sendMessage (initial_state\<lparr>inputMessage := js ''hi'', isLoading := True\<rparr>) sample_env
       = (initial_state\<lparr>inputMessage := js ''hi'', isLoading := True\<rparr>, [PreventDefault], None)
   \<and> send_disabled (initial_state\<lparr>inputMessage := js ''hi'', isLoading := True\<rparr>)"
proof -
  have blank: "trim (inputMessage (initial_state\<lparr>inputMessage := js ''  ''\<rparr>)) = []"
    by (simp add: trim_def js_def isWhiteSpace_def)
  have loading: "isLoading (initial_state\<lparr>inputMessage := js ''hi'', isLoading := True\<rparr>)"
    by simp
  show ?thesis
    using blank loading
      sendMessage_guard [of "initial_state\<lparr>inputMessage := js ''  ''\<rparr>" sample_env]
      sendMessage_guard [of "initial_state\<lparr>inputMessage := js ''hi'', isLoading := True\<rparr>" sample_env]
    by simp
qed

end
